theory Spec2Isabelle
  imports Complex_Main
begin

section \<open>Python values, dictionaries and strings\<close>

text \<open>
  The findings handled by \<^verbatim>\<open>StatsGenerator\<close> and \<^verbatim>\<open>FixGenerator\<close> are Python
  dictionaries of type \<^verbatim>\<open>Dict[str, Any]\<close>. A value is one of the scalar kinds below;
  a dictionary is a map from keys to values. Characters are bytes, floats are
  idealised as real numbers.
\<close>

datatype pyval = PStr string | PInt int | PFloat real | PBool bool | PNone

datatype py_error = AttributeError | TypeError | IndexError | ValueError | OverflowError

type_synonym pydict = "string \<rightharpoonup> pyval"

text \<open>\<^verbatim>\<open>d.get(key, default)\<close>\<close>

definition dict_get :: "pydict \<Rightarrow> string \<Rightarrow> pyval \<Rightarrow> pyval" where
  "dict_get d k dflt = (case d k of None \<Rightarrow> dflt | Some v \<Rightarrow> v)"

text \<open>\<^verbatim>\<open>str.lower\<close> and \<^verbatim>\<open>str.upper\<close> on ASCII letters; other bytes are unchanged.\<close>

definition ascii_upper :: string where
  "ascii_upper = ''ABCDEFGHIJKLMNOPQRSTUVWXYZ''"

definition ascii_lower :: string where
  "ascii_lower = ''abcdefghijklmnopqrstuvwxyz''"

definition lower_char :: "char \<Rightarrow> char" where
  "lower_char c = (case map_of (zip ascii_upper ascii_lower) c of None \<Rightarrow> c | Some l \<Rightarrow> l)"

definition upper_char :: "char \<Rightarrow> char" where
  "upper_char c = (case map_of (zip ascii_lower ascii_upper) c of None \<Rightarrow> c | Some u \<Rightarrow> u)"

definition str_lower :: "string \<Rightarrow> string" where
  "str_lower s = map lower_char s"

definition str_upper :: "string \<Rightarrow> string" where
  "str_upper s = map upper_char s"

text \<open>
  \<^verbatim>\<open>x.lower()\<close> on an arbitrary value: only a string has the method, every other
  value of the model raises \<^verbatim>\<open>AttributeError\<close>.
\<close>

fun py_lower :: "pyval \<Rightarrow> py_error + string" where
  "py_lower (PStr s) = Inr (str_lower s)"
| "py_lower _ = Inl AttributeError"

text \<open>A field that is absent or holds a string: what the data model calls a string tag.\<close>

definition str_field :: "pydict \<Rightarrow> string \<Rightarrow> bool" where
  "str_field d k = (case d k of None \<Rightarrow> True | Some (PStr s) \<Rightarrow> True | Some _ \<Rightarrow> False)"

section \<open>Risk score\<close>

text \<open>The table \<^verbatim>\<open>risk_weights\<close> of \<^verbatim>\<open>calculate_risk_score\<close>, in source order.\<close>

definition risk_weights :: "(string \<times> real) list" where
  "risk_weights =
     [(''critical'', 10), (''high'', 5), (''medium'', 3), (''low'', 1),
      (''info'', 1 / 2), (''unknown'', 1)]"

text \<open>
  The loop body: \<^verbatim>\<open>risk_level = vuln.get('risk_level', 'unknown').lower()\<close>, then
  \<^verbatim>\<open>weight = risk_weights.get(risk_level, 1)\<close>.
\<close>

definition vuln_weight :: "pydict \<Rightarrow> py_error + real" where
  "vuln_weight vuln =
     (case py_lower (dict_get vuln ''risk_level'' (PStr ''unknown'')) of
        Inl e \<Rightarrow> Inl e
      | Inr risk_level \<Rightarrow>
          Inr (case map_of risk_weights risk_level of None \<Rightarrow> 1 | Some w \<Rightarrow> w))"

text \<open>The loop \<^verbatim>\<open>for vuln in vulnerabilities: total_weight += weight\<close>.\<close>

fun weight_loop :: "real \<Rightarrow> pydict list \<Rightarrow> py_error + real" where
  "weight_loop total_weight [] = Inr total_weight"
| "weight_loop total_weight (vuln # rest) =
     (case vuln_weight vuln of
        Inl e \<Rightarrow> Inl e
      | Inr weight \<Rightarrow> weight_loop (total_weight + weight) rest)"

text \<open>
  \<^verbatim>\<open>round(x, 1)\<close>: the nearest multiple of one tenth, a tie going to the even
  neighbour.
\<close>

definition round_half_even :: "real \<Rightarrow> int" where
  "round_half_even x =
     (let f = \<lfloor>x\<rfloor>; d = x - of_int f
      in if d < 1 / 2 then f
         else if 1 / 2 < d then f + 1
         else if even f then f else f + 1)"

definition py_round1 :: "real \<Rightarrow> real" where
  "py_round1 x = of_int (round_half_even (x * 10)) / 10"

definition normalized_score :: "real \<Rightarrow> real" where
  "normalized_score total_weight = min 100 (100 * ln (1 + total_weight / 50) / ln 2)"

definition calculate_risk_score :: "pydict list \<Rightarrow> py_error + real" where
  "calculate_risk_score vulnerabilities =
     (if vulnerabilities = [] then Inr 0
      else case weight_loop 0 vulnerabilities of
             Inl e \<Rightarrow> Inl e
           | Inr total_weight \<Rightarrow>
               if total_weight = 0 then Inr 0
               else Inr (py_round1 (normalized_score total_weight)))"

subsection \<open>The risk score as the specification words it\<close>

text \<open>
  The weight table as a function of the risk level, the total as a sum, and the
  score as a function of the list of risk levels.
\<close>

definition spec_weight :: "string \<Rightarrow> real" where
  "spec_weight level =
     (if level = ''critical'' then 10
      else if level = ''high'' then 5
      else if level = ''medium'' then 3
      else if level = ''low'' then 1
      else if level = ''info'' then 1 / 2
      else 1)"

definition spec_totalWeight :: "string list \<Rightarrow> real" where
  "spec_totalWeight levels = sum_list (map spec_weight levels)"

definition spec_riskScore :: "string list \<Rightarrow> real" where
  "spec_riskScore levels =
     (if levels = [] \<or> spec_totalWeight levels = 0 then 0
      else py_round1 (min 100 (100 * ln (1 + spec_totalWeight levels / 50) / ln 2)))"

text \<open>The risk level of a well-formed finding: lower-cased, \<^verbatim>\<open>unknown\<close> when absent.\<close>

definition risk_level_of :: "pydict \<Rightarrow> string" where
  "risk_level_of vuln =
     (case vuln ''risk_level'' of Some (PStr s) \<Rightarrow> str_lower s | _ \<Rightarrow> ''unknown'')"

section \<open>Statistics\<close>

text \<open>
  \<^verbatim>\<open>collections.Counter\<close> over a list: a dictionary from each distinct element to
  its number of occurrences, in order of first occurrence. The equality is the one
  Python uses for dictionary keys.
\<close>

fun counter_incr :: "('a \<Rightarrow> 'a \<Rightarrow> bool) \<Rightarrow> 'a \<Rightarrow> ('a \<times> nat) list \<Rightarrow> ('a \<times> nat) list" where
  "counter_incr eq x [] = [(x, 1)]"
| "counter_incr eq x ((k, n) # rest) =
     (if eq k x then (k, n + 1) # rest else (k, n) # counter_incr eq x rest)"

definition counter :: "('a \<Rightarrow> 'a \<Rightarrow> bool) \<Rightarrow> 'a list \<Rightarrow> ('a \<times> nat) list" where
  "counter eq xs = foldl (\<lambda>c x. counter_incr eq x c) [] xs"

text \<open>\<^verbatim>\<open>counts.get(key, 0)\<close> on a counter keyed by strings.\<close>

definition counter_get :: "(string \<times> nat) list \<Rightarrow> string \<Rightarrow> nat" where
  "counter_get c k = (case map_of c k of None \<Rightarrow> 0 | Some n \<Rightarrow> n)"

text \<open>
  Python's \<^verbatim>\<open>==\<close> on the values of the model, as dictionary keys compare: numbers
  (booleans among them) by value, strings by content.
\<close>

fun num_val :: "pyval \<Rightarrow> real option" where
  "num_val (PInt i) = Some (of_int i)"
| "num_val (PFloat r) = Some r"
| "num_val (PBool b) = Some (if b then 1 else 0)"
| "num_val _ = None"

definition py_eq :: "pyval \<Rightarrow> pyval \<Rightarrow> bool" where
  "py_eq a b =
     (case (num_val a, num_val b) of
        (Some x, Some y) \<Rightarrow> x = y
      | (None, None) \<Rightarrow> a = b
      | _ \<Rightarrow> False)"

text \<open>
  \<^verbatim>\<open>[v.get(key, 'unknown').lower() for v in vulnerabilities]\<close>: the first value
  without a \<^verbatim>\<open>lower\<close> method raises.
\<close>

fun lowered_fields :: "string \<Rightarrow> pydict list \<Rightarrow> py_error + string list" where
  "lowered_fields key [] = Inr []"
| "lowered_fields key (v # vs) =
     (case py_lower (dict_get v key (PStr ''unknown'')) of
        Inl e \<Rightarrow> Inl e
      | Inr s \<Rightarrow> (case lowered_fields key vs of Inl e \<Rightarrow> Inl e | Inr ss \<Rightarrow> Inr (s # ss)))"

text \<open>
  \<^verbatim>\<open>float(c)\<close> for an integer: the value, or \<^verbatim>\<open>OverflowError\<close> for an integer too
  large for a float, which is one whose magnitude rounds to \<open>2 ^ 1024\<close>.
\<close>

definition float_of_int :: "int \<Rightarrow> py_error + real" where
  "float_of_int i =
     (if 2 ^ 1024 - 2 ^ 970 \<le> \<bar>i\<bar> then Inl OverflowError else Inr (of_int i))"

text \<open>
  \<^verbatim>\<open>float(c) if isinstance(c, (int, float)) else 0\<close> for \<^verbatim>\<open>c = v.get('confidence', 0)\<close>;
  a boolean is an \<^verbatim>\<open>int\<close> for \<^verbatim>\<open>isinstance\<close>.
\<close>

definition confidence_of :: "pydict \<Rightarrow> py_error + real" where
  "confidence_of v =
     (case dict_get v ''confidence'' (PInt 0) of
        PInt i \<Rightarrow> float_of_int i
      | PFloat r \<Rightarrow> Inr r
      | PBool b \<Rightarrow> Inr (if b then 1 else 0)
      | _ \<Rightarrow> Inr 0)"

text \<open>The list comprehension over the findings: the first conversion that raises ends it.\<close>

fun confidences_of :: "pydict list \<Rightarrow> py_error + real list" where
  "confidences_of [] = Inr []"
| "confidences_of (v # vs) =
     (case confidence_of v of
        Inl e \<Rightarrow> Inl e
      | Inr c \<Rightarrow> (case confidences_of vs of Inl e \<Rightarrow> Inl e | Inr cs \<Rightarrow> Inr (c # cs)))"

text \<open>\<^verbatim>\<open>statistics.mean(xs) if xs else 0\<close>\<close>

definition mean_or_zero :: "real list \<Rightarrow> real" where
  "mean_or_zero xs = (if xs = [] then 0 else sum_list xs / of_nat (length xs))"

text \<open>
  \<^verbatim>\<open>sorted(counts.items(), key=lambda x: x[1], reverse=True)[:5]\<close>: a stable sort by
  decreasing count, then the first five.
\<close>

definition top5 :: "('a \<times> nat) list \<Rightarrow> ('a \<times> nat) list" where
  "top5 items = take 5 (sort_key (\<lambda>x. - int (snd x)) items)"

record stats =
  total_vulnerabilities :: nat
  risk_distribution :: "(string \<times> nat) list"
  type_distribution :: "(string \<times> nat) list"
  top_vulnerability_types :: "(string \<times> nat) list"
  average_confidence :: real
  top_vulnerable_files :: "(pyval \<times> nat) list"
  generated_at :: string

text \<open>\<^verbatim>\<open>_empty_stats\<close>; the clock reading \<^verbatim>\<open>datetime.now().isoformat()\<close> is a parameter.\<close>

definition empty_stats :: "string \<Rightarrow> stats" where
  "empty_stats now =
     \<lparr>total_vulnerabilities = 0, risk_distribution = [], type_distribution = [],
      top_vulnerability_types = [], average_confidence = 0, top_vulnerable_files = [],
      generated_at = now\<rparr>"

definition generate :: "string \<Rightarrow> pydict list \<Rightarrow> py_error + stats" where
  "generate now vulnerabilities =
     (if vulnerabilities = [] then Inr (empty_stats now)
      else case lowered_fields ''risk_level'' vulnerabilities of
        Inl e \<Rightarrow> Inl e
      | Inr risk_levels \<Rightarrow>
          (case lowered_fields ''type'' vulnerabilities of
             Inl e \<Rightarrow> Inl e
           | Inr vuln_types \<Rightarrow>
               (case confidences_of vulnerabilities of
                  Inl e \<Rightarrow> Inl e
                | Inr confidences \<Rightarrow>
                    (let risk_counts = counter (=) risk_levels;
                         type_counts = counter (=) vuln_types;
                         top_types = top5 type_counts;
                         avg_confidence = mean_or_zero confidences;
                         file_counts =
                           counter py_eq
                             (map (\<lambda>v. dict_get v ''file_path'' (PStr ''unknown''))
                                  vulnerabilities);
                         top_files = top5 file_counts
                     in Inr \<lparr>total_vulnerabilities = length vulnerabilities,
                              risk_distribution = risk_counts,
                              type_distribution = type_counts,
                              top_vulnerability_types = top_types,
                              average_confidence = avg_confidence,
                              top_vulnerable_files = top_files,
                              generated_at = now\<rparr>))))"

section \<open>Trend data\<close>

text \<open>
  A stored scan result, as \<^verbatim>\<open>generate_trend_data\<close> reads it: the three keys it looks
  up, each possibly absent.
\<close>

record scan_result =
  timestamp :: "pyval option"
  vulnerabilities :: "pydict list option"
  risk_score :: "pyval option"

record trend_data =
  dates :: "pyval list"
  critical :: "nat list"
  high :: "nat list"
  medium :: "nat list"
  low :: "nat list"
  risk_scores :: "pyval list"

text \<open>The body of the loop for a scan id that is a key of \<^verbatim>\<open>scan_results\<close>.\<close>

definition add_data_point :: "trend_data \<Rightarrow> scan_result \<Rightarrow> py_error + trend_data" where
  "add_data_point trend result =
     (let ts = (case timestamp result of None \<Rightarrow> PStr [] | Some t \<Rightarrow> t);
          vulns = (case vulnerabilities result of None \<Rightarrow> [] | Some vs \<Rightarrow> vs)
      in case lowered_fields ''risk_level'' vulns of
           Inl e \<Rightarrow> Inl e
         | Inr risk_levels \<Rightarrow>
             (let risk_counts = counter (=) risk_levels;
                  score = (case risk_score result of None \<Rightarrow> PInt 0 | Some s \<Rightarrow> s)
              in Inr \<lparr>dates = dates trend @ [ts],
                       critical = critical trend @ [counter_get risk_counts ''critical''],
                       high = high trend @ [counter_get risk_counts ''high''],
                       medium = medium trend @ [counter_get risk_counts ''medium''],
                       low = low trend @ [counter_get risk_counts ''low''],
                       risk_scores = risk_scores trend @ [score]\<rparr>))"

fun trend_loop ::
  "(string \<rightharpoonup> scan_result) \<Rightarrow> trend_data \<Rightarrow> string list \<Rightarrow> py_error + trend_data" where
  "trend_loop scan_results trend [] = Inr trend"
| "trend_loop scan_results trend (scan_id # rest) =
     (case scan_results scan_id of
        None \<Rightarrow> trend_loop scan_results trend rest
      | Some result \<Rightarrow>
          (case add_data_point trend result of
             Inl e \<Rightarrow> Inl e
           | Inr trend' \<Rightarrow> trend_loop scan_results trend' rest))"

definition generate_trend_data ::
  "string list \<Rightarrow> (string \<rightharpoonup> scan_result) \<Rightarrow> py_error + trend_data" where
  "generate_trend_data scan_ids scan_results =
     trend_loop scan_results
       \<lparr>dates = [], critical = [], high = [], medium = [], low = [], risk_scores = []\<rparr>
       scan_ids"

section \<open>Strings and regular expressions of the fix generator\<close>

abbreviation apos :: char where "apos \<equiv> CHR 0x27"
abbreviation dquote :: char where "dquote \<equiv> CHR 0x22"
abbreviation newline :: char where "newline \<equiv> CHR 0x0A"

text \<open>\<^verbatim>\<open>sub in s\<close> on strings: \<^verbatim>\<open>sub\<close> occurs in \<^verbatim>\<open>s\<close> as a contiguous piece.\<close>

fun starts_with :: "string \<Rightarrow> string \<Rightarrow> bool" where
  "starts_with s [] = True"
| "starts_with [] (p # ps) = False"
| "starts_with (c # cs) (p # ps) = (c = p \<and> starts_with cs ps)"

fun str_contains :: "string \<Rightarrow> string \<Rightarrow> bool" where
  "str_contains [] sub = (sub = [])"
| "str_contains (c # cs) sub = (starts_with (c # cs) sub \<or> str_contains cs sub)"

text \<open>
  White space (\<^verbatim>\<open>\s\<close>, and what \<^verbatim>\<open>strip()\<close> removes) and word characters (\<^verbatim>\<open>\w\<close>), on
  ASCII.
\<close>

definition is_space :: "char \<Rightarrow> bool" where
  "is_space c \<longleftrightarrow>
     c \<in> set [CHR '' '', CHR 0x09, CHR 0x0A, CHR 0x0B, CHR 0x0C, CHR 0x0D,
               CHR 0x1C, CHR 0x1D, CHR 0x1E, CHR 0x1F]"

definition is_word :: "char \<Rightarrow> bool" where
  "is_word c \<longleftrightarrow> c \<in> set (ascii_lower @ ascii_upper @ ''0123456789_'')"

text \<open>\<^verbatim>\<open>s.strip()\<close>, \<^verbatim>\<open>s.strip(chars)\<close> and \<^verbatim>\<open>s.split(sep)\<close> for a one-character separator.\<close>

definition strip_where :: "(char \<Rightarrow> bool) \<Rightarrow> string \<Rightarrow> string" where
  "strip_where p s = rev (dropWhile p (rev (dropWhile p s)))"

definition str_strip :: "string \<Rightarrow> string" where
  "str_strip s = strip_where is_space s"

definition strip_chars :: "string \<Rightarrow> string \<Rightarrow> string" where
  "strip_chars chars s = strip_where (\<lambda>c. c \<in> set chars) s"

fun str_split :: "char \<Rightarrow> string \<Rightarrow> string list" where
  "str_split sep [] = [[]]"
| "str_split sep (c # cs) =
     (if c = sep then [] # str_split sep cs
      else case str_split sep cs of [] \<Rightarrow> [[c]] | p # ps \<Rightarrow> (c # p) # ps)"

text \<open>
  \<^verbatim>\<open>template.format(*args)\<close> for the replacement fields the templates of this program
  contain: \<^verbatim>\<open>{}\<close> takes the next argument (\<^verbatim>\<open>IndexError\<close> when none is left) and a
  doubled brace is a brace. Any other use of a brace is reported as \<^verbatim>\<open>ValueError\<close>;
  no template has one.
\<close>

fun py_format :: "string \<Rightarrow> string list \<Rightarrow> py_error + string" where
  "py_format [] args = Inr []"
| "py_format [c] args = (if c = CHR ''{'' \<or> c = CHR ''}'' then Inl ValueError else Inr [c])"
| "py_format (c # d # rest) args =
     (if c = CHR ''{'' \<and> d = CHR ''}'' then
        (case args of
           [] \<Rightarrow> Inl IndexError
         | a # as \<Rightarrow> (case py_format rest as of Inl e \<Rightarrow> Inl e | Inr out \<Rightarrow> Inr (a @ out)))
      else if (c = CHR ''{'' \<and> d = CHR ''{'') \<or> (c = CHR ''}'' \<and> d = CHR ''}'') then
        (case py_format rest args of Inl e \<Rightarrow> Inl e | Inr out \<Rightarrow> Inr (c # out))
      else if c = CHR ''{'' \<or> c = CHR ''}'' then Inl ValueError
      else (case py_format (d # rest) args of Inl e \<Rightarrow> Inl e | Inr out \<Rightarrow> Inr (c # out)))"

text \<open>
  The regular expressions of the four templates use literals, the classes \<^verbatim>\<open>.\<close>,
  \<^verbatim>\<open>\s\<close>, \<^verbatim>\<open>\w\<close> and \<^verbatim>\<open>['"]\<close>, concatenation, alternation, greedy and lazy repetition,
  capturing groups and negative lookahead.
\<close>

datatype cls = AnyChar | Space | WordChar | Lit char | OneOf string

fun cls_match :: "cls \<Rightarrow> char \<Rightarrow> bool" where
  "cls_match AnyChar c = (c \<noteq> newline)"
| "cls_match Space c = is_space c"
| "cls_match WordChar c = is_word c"
| "cls_match (Lit l) c = (c = l)"
| "cls_match (OneOf cs) c = (c \<in> set cs)"

datatype regex =
    Eps
  | Chr cls
  | Cat regex regex
  | Alt regex regex
  | Star regex
  | Lazy regex
  | Group nat regex
  | NotAhead regex

type_synonym caps = "(nat \<times> string) list"

text \<open>
  Backtracking matching as Python's \<^verbatim>\<open>re\<close> does it: \<open>rmatch r s c\<close> lists, in the order
  the engine tries them, the ways \<open>r\<close> matches a prefix of \<open>s\<close>, each as the rest of the
  input and the captured groups (the latest capture of a group first). A greedy
  repetition tries one more iteration before it tries to stop, a lazy one the other way
  round; an iteration that consumes nothing is not repeated.
\<close>

fun rmatch :: "regex \<Rightarrow> string \<Rightarrow> caps \<Rightarrow> (string \<times> caps) list" where
  "rmatch Eps s c = [(s, c)]"
| "rmatch (Chr k) s c =
     (case s of [] \<Rightarrow> [] | x # xs \<Rightarrow> if cls_match k x then [(xs, c)] else [])"
| "rmatch (Cat r1 r2) s c = concat (map (\<lambda>(s', c'). rmatch r2 s' c') (rmatch r1 s c))"
| "rmatch (Alt r1 r2) s c = rmatch r1 s c @ rmatch r2 s c"
| "rmatch (Star r) s c =
     concat (map (\<lambda>(s', c'). if length s' < length s then rmatch (Star r) s' c' else [])
                 (rmatch r s c)) @ [(s, c)]"
| "rmatch (Lazy r) s c =
     (s, c) # concat (map (\<lambda>(s', c'). if length s' < length s then rmatch (Lazy r) s' c' else [])
                          (rmatch r s c))"
| "rmatch (Group n r) s c =
     map (\<lambda>(s', c'). (s', (n, take (length s - length s') s) # c')) (rmatch r s c)"
| "rmatch (NotAhead r) s c = (if rmatch r s c = [] then [(s, c)] else [])"

record re_match =
  whole :: string
  groups :: caps

text \<open>
  \<^verbatim>\<open>re.search(pattern, s)\<close>: the first way to match at the leftmost position that has
  one. \<^verbatim>\<open>m.group(n)\<close> is \<^verbatim>\<open>None\<close> for a group that took no part in the match.
\<close>

fun re_search :: "regex \<Rightarrow> string \<Rightarrow> re_match option" where
  "re_search r [] =
     (case rmatch r [] [] of [] \<Rightarrow> None | (s', c) # _ \<Rightarrow> Some \<lparr>whole = [], groups = c\<rparr>)"
| "re_search r (x # xs) =
     (case rmatch r (x # xs) [] of
        [] \<Rightarrow> re_search r xs
      | (s', c) # _ \<Rightarrow>
          Some \<lparr>whole = take (length (x # xs) - length s') (x # xs), groups = c\<rparr>)"

definition group :: "re_match \<Rightarrow> nat \<Rightarrow> string option" where
  "group m n = map_of (groups m) n"

definition seq :: "regex list \<Rightarrow> regex" where
  "seq rs = foldr Cat rs Eps"

definition lits :: "string \<Rightarrow> regex" where
  "lits s = seq (map (\<lambda>c. Chr (Lit c)) s)"

definition plus :: "regex \<Rightarrow> regex" where
  "plus r = Cat r (Star r)"

definition lazy_plus :: "regex \<Rightarrow> regex" where
  "lazy_plus r = Cat r (Lazy r)"

definition spaces :: regex where
  "spaces = Star (Chr Space)"

definition quote :: regex where
  "quote = Chr (OneOf [apos, dquote])"

section \<open>Fix generator\<close>

text \<open>
  The patterns of \<^verbatim>\<open>fix_templates\<close>:
  \<^verbatim>\<open>cursor\.execute\s*\(\s*['"].*?\s*\+\s*(.+?)\s*['"]\s*\)\<close>,
  \<^verbatim>\<open>(os\.system|subprocess\.call|subprocess\.Popen)\s*\(\s*['"].*?\s*\+\s*(.+?)\s*['"]\s*\)\<close>,
  \<^verbatim>\<open>(\w+)\s*=\s*['"]((?!.*\$\{)(?!.*\{\{).+?)['"]\s*\<close> and
  \<^verbatim>\<open>pickle\.loads\s*\(\s*(.+?)\s*\)\<close>.
\<close>

definition sql_injection_pattern :: regex where
  "sql_injection_pattern =
     seq [lits ''cursor.execute'', spaces, Chr (Lit CHR ''(''), spaces, quote,
          Lazy (Chr AnyChar), spaces, Chr (Lit CHR ''+''), spaces,
          Group 1 (lazy_plus (Chr AnyChar)), spaces, quote, spaces, Chr (Lit CHR '')'')]"

definition command_injection_pattern :: regex where
  "command_injection_pattern =
     seq [Group 1 (Alt (lits ''os.system'')
                    (Alt (lits ''subprocess.call'') (lits ''subprocess.Popen''))),
          spaces, Chr (Lit CHR ''(''), spaces, quote,
          Lazy (Chr AnyChar), spaces, Chr (Lit CHR ''+''), spaces,
          Group 2 (lazy_plus (Chr AnyChar)), spaces, quote, spaces, Chr (Lit CHR '')'')]"

definition hardcoded_secrets_pattern :: regex where
  "hardcoded_secrets_pattern =
     seq [Group 1 (plus (Chr WordChar)), spaces, Chr (Lit CHR ''=''), spaces, quote,
          Group 2 (seq [NotAhead (seq [Star (Chr AnyChar), lits ''${'']),
                        NotAhead (seq [Star (Chr AnyChar), lits ''{{'']),
                        lazy_plus (Chr AnyChar)]),
          quote, spaces]"

definition insecure_deserialization_pattern :: regex where
  "insecure_deserialization_pattern =
     seq [lits ''pickle.loads'', spaces, Chr (Lit CHR ''(''), spaces,
          Group 1 (lazy_plus (Chr AnyChar)), spaces, Chr (Lit CHR '')'')]"

text \<open>
  A template is a dictionary with the keys \<^verbatim>\<open>pattern\<close>, \<^verbatim>\<open>replacement\<close> and
  \<^verbatim>\<open>explanation\<close>; \<open>template_keys\<close> lists them, for the membership tests
  \<^verbatim>\<open>'sql_injection' in template\<close> of \<^verbatim>\<open>_apply_template\<close>, which on a dictionary ask for
  a key.
\<close>

record fix_template =
  pattern :: regex
  replacement :: string
  explanation :: string

definition template_keys :: "fix_template \<Rightarrow> string list" where
  "template_keys template = [''pattern'', ''replacement'', ''explanation'']"

definition fix_templates :: "(string \<times> fix_template) list" where
  "fix_templates =
     [(''sql_injection'',
       \<lparr>pattern = sql_injection_pattern,
        replacement = ''cursor.execute('{}', [{}])'',
        explanation = ''Use parameterized queries to prevent SQL injection.''\<rparr>),
      (''command_injection'',
       \<lparr>pattern = command_injection_pattern,
        replacement = ''# SECURITY: Avoid shell commands with user input'' @ [newline] @
                      ''# Consider using secure alternatives like:'' @ [newline] @
                      ''# shlex.quote() or dedicated APIs'',
        explanation = ''Avoid shell commands with concatenated user input.''\<rparr>),
      (''hardcoded_secrets'',
       \<lparr>pattern = hardcoded_secrets_pattern,
        replacement = ''{} = os.environ.get('{}', '' @ [apos, apos] @ '')'',
        explanation = ''Store secrets in environment variables or a secure vault service.''\<rparr>),
      (''insecure_deserialization'',
       \<lparr>pattern = insecure_deserialization_pattern,
        replacement = ''# SECURITY: Avoid pickle with untrusted data'' @ [newline] @
                      ''# Consider JSON or other safer serialization formats'',
        explanation =
          ''Pickle is vulnerable to code execution attacks with untrusted data.''\<rparr>)]"

text \<open>A fix suggestion: the dictionary literal the generator returns, keys in order.\<close>

type_synonym fix_suggestion = "(string \<times> string) list"

definition make_fix :: "string \<Rightarrow> string \<Rightarrow> string \<Rightarrow> fix_suggestion" where
  "make_fix fixed_code expl conf =
     [(''fixed_code'', fixed_code), (''explanation'', expl), (''confidence'', conf)]"

text \<open>
  The body of the \<^verbatim>\<open>try\<close> of \<^verbatim>\<open>_apply_template\<close>. \<^verbatim>\<open>re.search\<close> raises
  \<^verbatim>\<open>TypeError\<close> on a snippet that is not a string.
\<close>

definition apply_template_body :: "fix_template \<Rightarrow> pyval \<Rightarrow> py_error + fix_suggestion option" where
  "apply_template_body template code_snippet =
     (case code_snippet of
        PStr snippet \<Rightarrow>
          (case re_search (pattern template) snippet of
             None \<Rightarrow> Inr None
           | Some m \<Rightarrow>
               (case
                  (if ''sql_injection'' \<in> set (template_keys template) then
                     (case str_split CHR ''+'' snippet of
                        [] \<Rightarrow> Inl IndexError
                      | part # _ \<Rightarrow>
                          (case group m 1 of
                             None \<Rightarrow> Inl AttributeError
                           | Some g \<Rightarrow>
                               py_format (replacement template)
                                 [strip_chars [dquote] (strip_chars [apos] (str_strip part)),
                                  str_strip g]))
                   else if ''command_injection'' \<in> set (template_keys template) then
                     Inr (replacement template)
                   else if ''hardcoded_secrets'' \<in> set (template_keys template) then
                     (case group m 1 of
                        None \<Rightarrow> Inl AttributeError
                      | Some var_name \<Rightarrow>
                          py_format (replacement template) [var_name, str_upper var_name])
                   else Inr (replacement template))
                of Inl e \<Rightarrow> Inl e
                 | Inr fixed_code \<Rightarrow>
                     Inr (Some (make_fix fixed_code (explanation template) ''medium''))))
      | _ \<Rightarrow> Inl TypeError)"

text \<open>\<^verbatim>\<open>_apply_template\<close>: \<^verbatim>\<open>except Exception\<close> prints and returns \<^verbatim>\<open>None\<close>.\<close>

definition apply_template :: "fix_template \<Rightarrow> pyval \<Rightarrow> fix_suggestion option" where
  "apply_template template code_snippet =
     (case apply_template_body template code_snippet of Inl e \<Rightarrow> None | Inr r \<Rightarrow> r)"

text \<open>\<^verbatim>\<open>if fix:\<close> holds for a dictionary that is not empty.\<close>

definition truthy :: "fix_suggestion option \<Rightarrow> bool" where
  "truthy f = (case f of None \<Rightarrow> False | Some d \<Rightarrow> d \<noteq> [])"

text \<open>The loop of \<^verbatim>\<open>generate_fix\<close> over \<^verbatim>\<open>fix_templates.items()\<close>.\<close>

fun template_loop :: "(string \<times> fix_template) list \<Rightarrow> string \<Rightarrow> pyval \<Rightarrow> fix_suggestion option" where
  "template_loop [] vuln_type code_snippet = None"
| "template_loop ((template_type, template) # rest) vuln_type code_snippet =
     (if str_contains vuln_type template_type then
        (let fix = apply_template template code_snippet
         in if truthy fix then fix else template_loop rest vuln_type code_snippet)
      else template_loop rest vuln_type code_snippet)"

text \<open>The five suggestions of \<^verbatim>\<open>_generate_type_based_fix\<close>.\<close>

definition sql_fix :: fix_suggestion where
  "sql_fix =
     make_fix
       (''# Use parameterized queries'' @ [newline] @
        ''cursor.execute('SELECT * FROM table WHERE field = %s', [user_input])'')
       ''Use parameterized queries to prevent SQL injection.''
       ''low''"

definition command_fix :: fix_suggestion where
  "command_fix =
     make_fix
       (''# Avoid shell=True and command concatenation'' @ [newline] @
        ''import shlex'' @ [newline] @
        ''safe_args = [safe_command, shlex.quote(user_input)]'' @ [newline] @
        ''subprocess.run(safe_args, shell=False, check=True)'')
       ''Use subprocess with properly quoted arguments and avoid shell=True.''
       ''low''"

definition xss_fix :: fix_suggestion where
  "xss_fix =
     make_fix
       (''# Use proper escaping/encoding'' @ [newline] @
        ''from html import escape'' @ [newline] @
        ''safe_output = escape(user_input)'' @ [newline] @
        ''response.write(f'<div>{safe_output}</div>')'')
       ''Always encode/escape user input before rendering in HTML context.''
       ''low''"

definition path_fix :: fix_suggestion where
  "path_fix =
     make_fix
       (''# Validate file paths'' @ [newline] @
        ''import os.path'' @ [newline] @
        ''safe_path = os.path.normpath(os.path.join(safe_base_dir, user_filename))'' @ [newline] @
        ''if not safe_path.startswith(safe_base_dir):'' @ [newline] @
        ''    raise ValueError('Invalid path')'')
       ''Validate and sanitize file paths to prevent directory traversal.''
       ''low''"

definition default_fix :: "string \<Rightarrow> fix_suggestion" where
  "default_fix code_snippet =
     make_fix
       (''# Review and fix this vulnerability'' @ [newline] @ ''# '' @ code_snippet)
       ''This requires manual review.''
       ''low''"

text \<open>
  \<^verbatim>\<open>_generate_type_based_fix\<close>. The default suggestion concatenates a string and the
  snippet, which raises \<^verbatim>\<open>TypeError\<close> for a snippet that is not a string.
\<close>

definition generate_type_based_fix :: "pydict \<Rightarrow> py_error + fix_suggestion" where
  "generate_type_based_fix vulnerability =
     (case py_lower (dict_get vulnerability ''type'' (PStr [])) of
        Inl e \<Rightarrow> Inl e
      | Inr vuln_type \<Rightarrow>
          (let code_snippet = dict_get vulnerability ''code_snippet'' (PStr [])
           in if str_contains vuln_type ''sql'' then Inr sql_fix
              else if list_ex (\<lambda>x. str_contains vuln_type x)
                        [''command'', ''os.system'', ''subprocess''] then Inr command_fix
              else if str_contains vuln_type ''xss'' then Inr xss_fix
              else if str_contains vuln_type ''path'' \<or> str_contains vuln_type ''file''
                then Inr path_fix
              else (case code_snippet of
                      PStr s \<Rightarrow> Inr (default_fix s)
                    | _ \<Rightarrow> Inl TypeError)))"

text \<open>\<^verbatim>\<open>generate_fix\<close>; its result is an optional dictionary.\<close>

definition generate_fix :: "pydict \<Rightarrow> py_error + fix_suggestion option" where
  "generate_fix vulnerability =
     (case py_lower (dict_get vulnerability ''type'' (PStr [])) of
        Inl e \<Rightarrow> Inl e
      | Inr vuln_type \<Rightarrow>
          (let code_snippet = dict_get vulnerability ''code_snippet'' (PStr [])
           in case template_loop fix_templates vuln_type code_snippet of
                Some fix \<Rightarrow> Inr (Some fix)
              | None \<Rightarrow>
                  (case generate_type_based_fix vulnerability of
                     Inl e \<Rightarrow> Inl e
                   | Inr fix \<Rightarrow> Inr (Some fix))))"

subsection \<open>The fix generator as the specification words it\<close>

text \<open>
  The type and the snippet of a finding as \<^verbatim>\<open>generate_fix\<close> reads them, the keys of a
  fix suggestion, the environment-variable lookup the specification describes for a
  hard-coded secret, and the generic suggestion keyed by the type: one of four
  categories, or the default that echoes the snippet.
\<close>

definition fix_type :: "pydict \<Rightarrow> string" where
  "fix_type v = (case v ''type'' of Some (PStr s) \<Rightarrow> str_lower s | _ \<Rightarrow> [])"

definition snippet_of :: "pydict \<Rightarrow> string" where
  "snippet_of v = (case v ''code_snippet'' of Some (PStr s) \<Rightarrow> s | _ \<Rightarrow> [])"


definition spec_env_lookup :: "string \<Rightarrow> string" where
  "spec_env_lookup name =
     name @ '' = os.environ.get('' @ [apos] @ str_upper name @ [apos] @ '', '' @ [apos, apos] @ '')''"

datatype category = SqlCategory | CommandCategory | XssCategory | PathCategory | DefaultCategory

definition category_of :: "string \<Rightarrow> category" where
  "category_of vuln_type =
     (if str_contains vuln_type ''sql'' then SqlCategory
      else if str_contains vuln_type ''command'' \<or> str_contains vuln_type ''os.system''
              \<or> str_contains vuln_type ''subprocess'' then CommandCategory
      else if str_contains vuln_type ''xss'' then XssCategory
      else if str_contains vuln_type ''path'' \<or> str_contains vuln_type ''file'' then PathCategory
      else DefaultCategory)"

definition spec_fallback :: "string \<Rightarrow> string \<Rightarrow> fix_suggestion" where
  "spec_fallback vuln_type snippet =
     (case category_of vuln_type of
        SqlCategory \<Rightarrow> sql_fix
      | CommandCategory \<Rightarrow> command_fix
      | XssCategory \<Rightarrow> xss_fix
      | PathCategory \<Rightarrow> path_fix
      | DefaultCategory \<Rightarrow> default_fix snippet)"

text \<open>Four findings no template gives a fix for.\<close>

definition finding_xss :: pydict where
  "finding_xss = [''type'' \<mapsto> PStr ''XSS_reflected'', ''code_snippet'' \<mapsto> PStr ''render(q)'']"

definition finding_secret_nomatch :: pydict where
  "finding_secret_nomatch =
     [''type'' \<mapsto> PStr ''hardcoded_secrets'', ''code_snippet'' \<mapsto> PStr ''password = load()'']"

definition finding_sql_nosnippet :: pydict where
  "finding_sql_nosnippet = [''type'' \<mapsto> PStr ''sql_injection'', ''code_snippet'' \<mapsto> PNone]"

definition finding_secret_nosnippet :: pydict where
  "finding_secret_nosnippet =
     [''type'' \<mapsto> PStr ''hardcoded_secrets'', ''code_snippet'' \<mapsto> PInt 42]"




subsection \<open>Statistics and trend as the specification words them\<close>

text \<open>
  A string tag of a finding: lower-cased, \<^verbatim>\<open>unknown\<close> when absent. A confidence
  that converts to a float: anything but an integer too large for one. The scan results that
  a list of scan ids resolves to, in the order of the ids, and what the trend records of
  each: its timestamp, the number of its findings of a given risk level, its risk score.
\<close>

definition tag_of :: "string \<Rightarrow> pydict \<Rightarrow> string" where
  "tag_of key v = (case v key of Some (PStr s) \<Rightarrow> str_lower s | _ \<Rightarrow> ''unknown'')"

definition confidence_ok :: "pydict \<Rightarrow> bool" where
  "confidence_ok v =
     (case dict_get v ''confidence'' (PInt 0) of
        PInt i \<Rightarrow> \<bar>i\<bar> < 2 ^ 1024 - 2 ^ 970
      | _ \<Rightarrow> True)"

definition vulns_of :: "scan_result \<Rightarrow> pydict list" where
  "vulns_of result = (case vulnerabilities result of None \<Rightarrow> [] | Some vs \<Rightarrow> vs)"

definition level_count :: "string \<Rightarrow> scan_result \<Rightarrow> nat" where
  "level_count level result = count_list (map (tag_of ''risk_level'') (vulns_of result)) level"

definition timestamp_of :: "scan_result \<Rightarrow> pyval" where
  "timestamp_of result = (case timestamp result of None \<Rightarrow> PStr [] | Some t \<Rightarrow> t)"

definition risk_score_of :: "scan_result \<Rightarrow> pyval" where
  "risk_score_of result = (case risk_score result of None \<Rightarrow> PInt 0 | Some s \<Rightarrow> s)"

definition resolved :: "string list \<Rightarrow> (string \<rightharpoonup> scan_result) \<Rightarrow> scan_result list" where
  "resolved scan_ids scan_results = List.map_filter scan_results scan_ids"

section \<open>Properties of the risk score\<close>

lemma py_lower_str_field:
  "str_field d k \<Longrightarrow> \<exists>s. py_lower (dict_get d k (PStr dflt)) = Inr s"
  by (auto simp: str_field_def dict_get_def split: option.splits pyval.splits)

lemma map_of_risk_weights:
  "(case map_of risk_weights l of None \<Rightarrow> 1 | Some w \<Rightarrow> w) = spec_weight l"
  by (simp add: risk_weights_def spec_weight_def)

lemma str_lower_unknown: "str_lower ''unknown'' = ''unknown''"
  by (simp add: str_lower_def lower_char_def ascii_upper_def ascii_lower_def)

lemma vuln_weight_wf:
  "str_field vuln ''risk_level'' \<Longrightarrow> vuln_weight vuln = Inr (spec_weight (risk_level_of vuln))"
  unfolding vuln_weight_def map_of_risk_weights
  by (auto simp: str_field_def dict_get_def risk_level_of_def str_lower_unknown
           split: option.splits pyval.splits)

lemma weight_loop_sum:
  "\<forall>v \<in> set vs. str_field v ''risk_level'' \<Longrightarrow>
   weight_loop tw vs = Inr (tw + spec_totalWeight (map risk_level_of vs))"
  by (induction vs arbitrary: tw) (simp_all add: spec_totalWeight_def vuln_weight_wf)

subsection \<open>Rounding and the logarithmic scale\<close>

lemma rhe_lower: "x - 1 / 2 \<le> of_int (round_half_even x)"
  unfolding round_half_even_def Let_def by (auto; linarith)

lemma rhe_upper: "of_int (round_half_even x) \<le> x + 1 / 2"
  unfolding round_half_even_def Let_def by (auto; linarith)

lemma rhe_int: "round_half_even (of_int n) = n"
  unfolding round_half_even_def Let_def by simp

lemma rhe_near: "of_int n - 1 / 2 < x \<Longrightarrow> x < of_int n + 1 / 2 \<Longrightarrow> round_half_even x = n"
  unfolding round_half_even_def Let_def by (auto; linarith)

lemma rhe_mono: "x \<le> y \<Longrightarrow> round_half_even x \<le> round_half_even y"
proof (rule ccontr)
  assume xy: "x \<le> y" and "\<not> round_half_even x \<le> round_half_even y"
  then have gt: "round_half_even y + 1 \<le> round_half_even x" by simp
  then have "of_int (round_half_even y) + 1 \<le> (of_int (round_half_even x) :: real)"
    by linarith
  with rhe_upper[of x] rhe_lower[of y] xy
  have eq: "x = y" and ex: "of_int (round_half_even x) = x + 1 / 2" by linarith+
  from gt eq show False by simp
qed

lemma rhe_ge: "of_int n \<le> x \<Longrightarrow> n \<le> round_half_even x"
  using rhe_mono[of "of_int n" x] by (simp add: rhe_int)

lemma rhe_le: "x \<le> of_int n \<Longrightarrow> round_half_even x \<le> n"
  using rhe_mono[of x "of_int n"] by (simp add: rhe_int)

lemma py_round1_mono: "x \<le> y \<Longrightarrow> py_round1 x \<le> py_round1 y"
  unfolding py_round1_def using rhe_mono[of "x * 10" "y * 10"] by (simp add: divide_right_mono)

lemma py_round1_nonneg: "0 \<le> x \<Longrightarrow> 0 \<le> py_round1 x"
  unfolding py_round1_def using rhe_ge[of 0 "x * 10"] by simp

lemma py_round1_le_100: "x \<le> 100 \<Longrightarrow> py_round1 x \<le> 100"
  unfolding py_round1_def using rhe_le[of "x * 10" 1000] by simp

lemma normalized_score_mono:
  "0 \<le> a \<Longrightarrow> a \<le> b \<Longrightarrow> normalized_score a \<le> normalized_score b"
  unfolding normalized_score_def
  by (intro min.mono order_refl divide_right_mono mult_left_mono) simp_all

lemma normalized_score_nonneg: "0 \<le> a \<Longrightarrow> 0 \<le> normalized_score a"
  unfolding normalized_score_def by simp

lemma normalized_score_le: "normalized_score a \<le> 100"
  unfolding normalized_score_def by simp

lemma log2_6_5_lower: "21 / 80 * ln 2 < ln (6 / 5 :: real)"
proof -
  have a: "ln ((2::real) ^ 21) = 21 * ln 2" using ln_realpow[of "2::real" 21] by simp
  have b: "ln ((6 / 5 :: real) ^ 80) = 80 * ln (6 / 5)" using ln_realpow[of "6 / 5 :: real" 80] by simp
  have "(2::real) ^ 21 < (6 / 5) ^ 80" by (simp add: power_divide)
  then have "ln ((2::real) ^ 21) < ln ((6 / 5) ^ 80)" by (subst ln_less_cancel_iff) simp_all
  with a b show ?thesis by simp
qed

lemma log2_6_5_upper: "ln (6 / 5 :: real) < 5 / 19 * ln 2"
proof -
  have a: "ln ((2::real) ^ 5) = 5 * ln 2" using ln_realpow[of "2::real" 5] by simp
  have b: "ln ((6 / 5 :: real) ^ 19) = 19 * ln (6 / 5)" using ln_realpow[of "6 / 5 :: real" 19] by simp
  have "(6 / 5 :: real) ^ 19 < 2 ^ 5" by (simp add: power_divide)
  then have "ln ((6 / 5 :: real) ^ 19) < ln (2 ^ 5)" by (subst ln_less_cancel_iff) simp_all
  with a b show ?thesis by simp
qed

lemma score_critical_bounds:
  "263 - 1 / 2 < normalized_score 10 * 10" "normalized_score 10 * 10 < 263 + 1 / 2"
proof -
  define q where "q = ln (6 / 5 :: real) / ln 2"
  have lo: "21 / 80 < q" unfolding q_def using log2_6_5_lower by (simp add: less_divide_eq)
  have hi: "q < 5 / 19" unfolding q_def using log2_6_5_upper by (simp add: divide_less_eq)
  have "normalized_score 10 = min 100 (100 * q)"
    unfolding normalized_score_def q_def by simp
  with hi have n: "normalized_score 10 = 100 * q" by simp
  show "263 - 1 / 2 < normalized_score 10 * 10" unfolding n using lo by linarith
  show "normalized_score 10 * 10 < 263 + 1 / 2" unfolding n using hi by linarith
qed

lemma py_round1_critical: "py_round1 (normalized_score 10) = 263 / 10"
  unfolding py_round1_def using rhe_near[of 263 "normalized_score 10 * 10"] score_critical_bounds
  by simp

text \<open>The same result for any value within 0.03 of the exact one.\<close>

lemma log2_6_5_lower_fine: "111 / 422 * ln 2 < ln (6 / 5 :: real)"
proof -
  have a: "ln ((2::real) ^ 111) = 111 * ln 2" using ln_realpow[of "2::real" 111] by simp
  have b: "ln ((6 / 5 :: real) ^ 422) = 422 * ln (6 / 5)"
    using ln_realpow[of "6 / 5 :: real" 422] by simp
  have "(2::real) ^ 111 < (6 / 5) ^ 422" by (simp add: power_divide)
  then have "ln ((2::real) ^ 111) < ln ((6 / 5) ^ 422)" by (subst ln_less_cancel_iff) simp_all
  with a b show ?thesis by simp
qed

lemma py_round1_critical_robust:
  assumes "\<bar>y - 100 * ln (1 + 10 / 50) / ln 2\<bar> \<le> 3 / 100"
  shows "py_round1 y = 263 / 10"
proof -
  define q where "q = ln (6 / 5 :: real) / ln 2"
  have lo: "111 / 422 < q" unfolding q_def using log2_6_5_lower_fine by (simp add: less_divide_eq)
  have hi: "q < 5 / 19" unfolding q_def using log2_6_5_upper by (simp add: divide_less_eq)
  have "100 * ln (1 + 10 / 50) / ln 2 = 100 * q" unfolding q_def by simp
  with assms have y: "\<bar>y - 100 * q\<bar> \<le> 3 / 100" by simp
  have "263 - 1 / 2 < y * 10" "y * 10 < 263 + 1 / 2" using y lo hi by linarith+
  then show ?thesis unfolding py_round1_def using rhe_near[of 263 "y * 10"] by simp
qed

lemmas str_eval = str_lower_def lower_char_def ascii_upper_def ascii_lower_def

lemma py_round1_zero: "py_round1 0 = 0"
  by (simp add: py_round1_def round_half_even_def)

lemma spec_weight_pos: "0 < spec_weight l"
  by (simp add: spec_weight_def)

lemma spec_totalWeight_nonneg: "0 \<le> spec_totalWeight ls"
  unfolding spec_totalWeight_def
  by (induction ls) (simp_all add: add_nonneg_nonneg less_imp_le[OF spec_weight_pos])

lemma spec_riskScore_eq:
  "spec_riskScore ls = py_round1 (normalized_score (spec_totalWeight ls))"
  by (cases ls) (simp_all add: spec_riskScore_def normalized_score_def spec_totalWeight_def
        py_round1_zero)

lemma calculate_risk_score_round:
  assumes "\<forall>v \<in> set vs. str_field v ''risk_level''"
  shows "calculate_risk_score vs =
           Inr (py_round1 (normalized_score (spec_totalWeight (map risk_level_of vs))))"
proof (cases vs)
  case Nil
  then show ?thesis
    by (simp add: calculate_risk_score_def spec_totalWeight_def normalized_score_def py_round1_zero)
next
  case (Cons v rest)
  with weight_loop_sum[OF assms, of 0] show ?thesis
    by (simp add: calculate_risk_score_def normalized_score_def py_round1_zero)
qed

lemma str_lower_idem: "str_lower (str_lower s) = str_lower s"
proof -
  have "lower_char (lower_char c) = lower_char c" for c
    by (simp add: lower_char_def ascii_upper_def ascii_lower_def)
  then show ?thesis by (simp add: str_lower_def)
qed

section \<open>Properties of the counters and of the trend loop\<close>

lemma risk_level_of_tag: "risk_level_of v = tag_of ''risk_level'' v"
  by (simp add: risk_level_of_def tag_of_def)

lemma lowered_fields_wf:
  "\<forall>v \<in> set vs. str_field v key \<Longrightarrow> lowered_fields key vs = Inr (map (tag_of key) vs)"
proof (induction vs)
  case Nil
  then show ?case by simp
next
  case (Cons v vs)
  then have "py_lower (dict_get v key (PStr ''unknown'')) = Inr (tag_of key v)"
    by (auto simp: str_field_def dict_get_def tag_of_def str_lower_unknown
             split: option.splits pyval.splits)
  with Cons show ?case by simp
qed

lemma lowered_fields_length:
  "lowered_fields key vs = Inr ls \<Longrightarrow> length ls = length vs"
  by (induction vs arbitrary: ls) (auto split: sum.splits)

lemma confidence_of_ok: "confidence_ok v \<Longrightarrow> \<exists>c. confidence_of v = Inr c"
  by (auto simp: confidence_ok_def confidence_of_def float_of_int_def split: pyval.splits)

lemma confidences_of_ok:
  "\<forall>v \<in> set vs. confidence_ok v \<Longrightarrow> \<exists>cs. confidences_of vs = Inr cs"
proof (induction vs)
  case Nil
  then show ?case by simp
next
  case (Cons v vs)
  then obtain c cs where "confidence_of v = Inr c" "confidences_of vs = Inr cs"
    using confidence_of_ok[of v] by auto
  then show ?case by simp
qed

lemma generate_result:
  assumes "generate now vs = Inr st"
  shows "total_vulnerabilities st = length vs \<and>
         (\<exists>rl tl. length rl = length vs \<and> length tl = length vs \<and>
                  risk_distribution st = counter (=) rl \<and>
                  type_distribution st = counter (=) tl)"
proof (cases "vs = []")
  case True
  with assms have "st = empty_stats now" by (simp add: generate_def)
  with True show ?thesis by (simp add: empty_stats_def counter_def)
next
  case False
  with assms obtain rl tl cs where
    rl: "lowered_fields ''risk_level'' vs = Inr rl" and
    tl: "lowered_fields ''type'' vs = Inr tl" and
    cs: "confidences_of vs = Inr cs"
    by (auto simp: generate_def split: sum.splits)
  from assms False rl tl cs have
    "total_vulnerabilities st = length vs"
    "risk_distribution st = counter (=) rl"
    "type_distribution st = counter (=) tl"
    by (auto simp: generate_def Let_def)
  with lowered_fields_length[OF rl] lowered_fields_length[OF tl] show ?thesis by blast
qed

lemma generate_overflow:
  "generate now [[''confidence'' \<mapsto> PInt (10 ^ 309)]] = Inl OverflowError"
  by (simp add: generate_def dict_get_def str_eval confidence_of_def float_of_int_def)

lemma counter_incr_sum:
  "sum_list (map snd (counter_incr eq x c)) = Suc (sum_list (map snd c))"
  by (induction eq x c rule: counter_incr.induct) simp_all

lemma counter_foldl_sum:
  "sum_list (map snd (foldl (\<lambda>c x. counter_incr eq x c) c0 xs))
     = sum_list (map snd c0) + length xs"
  by (induction xs arbitrary: c0) (simp_all add: counter_incr_sum)

lemma counter_sum: "sum_list (map snd (counter eq xs)) = length xs"
  by (simp add: counter_def counter_foldl_sum)

lemma counter_incr_keys:
  "set (map fst (counter_incr (=) x c)) = insert x (set (map fst c))"
  by (induction "(=) :: 'a \<Rightarrow> 'a \<Rightarrow> bool" x c rule: counter_incr.induct) auto

lemma counter_incr_distinct:
  "distinct (map fst c) \<Longrightarrow> distinct (map fst (counter_incr (=) x c))"
proof (induction "(=) :: 'a \<Rightarrow> 'a \<Rightarrow> bool" x c rule: counter_incr.induct)
  case (1 x)
  then show ?case by simp
next
  case (2 x k n rest)
  then show ?case using counter_incr_keys[of x rest] by auto
qed

lemma counter_incr_map_of:
  "map_of (counter_incr (=) x c) k =
     (if k = x then Some (case map_of c x of None \<Rightarrow> 1 | Some n \<Rightarrow> n + 1) else map_of c k)"
  by (induction "(=) :: 'a \<Rightarrow> 'a \<Rightarrow> bool" x c rule: counter_incr.induct) auto

lemma counter_incr_get:
  "counter_get (counter_incr (=) x c) k = counter_get c k + (if x = k then 1 else 0)"
  by (auto simp: counter_get_def counter_incr_map_of split: option.splits)

lemma counter_foldl_distinct:
  "distinct (map fst c0) \<Longrightarrow> distinct (map fst (foldl (\<lambda>c x. counter_incr (=) x c) c0 xs))"
  by (induction xs arbitrary: c0) (simp_all add: counter_incr_distinct)

lemma counter_foldl_get:
  "counter_get (foldl (\<lambda>c x. counter_incr (=) x c) c0 xs) k = counter_get c0 k + count_list xs k"
  by (induction xs arbitrary: c0) (auto simp: counter_incr_get)

lemma counter_distinct: "distinct (map fst (counter (=) xs))"
  by (simp add: counter_def counter_foldl_distinct)

lemma counter_get_count: "counter_get (counter (=) xs) k = count_list xs k"
  using counter_foldl_get[of "[]" xs k] by (simp add: counter_def counter_get_def)


lemma add_data_point_wf:
  assumes "\<forall>v \<in> set (vulns_of r). str_field v ''risk_level''"
  shows "add_data_point t r =
           Inr \<lparr>dates = dates t @ [timestamp_of r],
                critical = critical t @ [level_count ''critical'' r],
                high = high t @ [level_count ''high'' r],
                medium = medium t @ [level_count ''medium'' r],
                low = low t @ [level_count ''low'' r],
                risk_scores = risk_scores t @ [risk_score_of r]\<rparr>"
proof -
  have "lowered_fields ''risk_level'' (vulns_of r) = Inr (map (tag_of ''risk_level'') (vulns_of r))"
    by (rule lowered_fields_wf[OF assms])
  then show ?thesis
    by (simp add: add_data_point_def vulns_of_def[symmetric] timestamp_of_def risk_score_of_def
          level_count_def counter_get_count)
qed

lemma trend_loop_wf:
  assumes "\<forall>r \<in> set (resolved ids rs). \<forall>v \<in> set (vulns_of r). str_field v ''risk_level''"
  shows "trend_loop rs t ids =
           Inr \<lparr>dates = dates t @ map timestamp_of (resolved ids rs),
                critical = critical t @ map (level_count ''critical'') (resolved ids rs),
                high = high t @ map (level_count ''high'') (resolved ids rs),
                medium = medium t @ map (level_count ''medium'') (resolved ids rs),
                low = low t @ map (level_count ''low'') (resolved ids rs),
                risk_scores = risk_scores t @ map risk_score_of (resolved ids rs)\<rparr>"
  using assms
proof (induction ids arbitrary: t)
  case Nil
  then show ?case by (simp add: resolved_def map_filter_simps)
next
  case (Cons i ids)
  show ?case
  proof (cases "rs i")
    case None
    with Cons show ?thesis by (simp add: resolved_def map_filter_simps)
  next
    case (Some r)
    with Cons.prems have wf: "\<forall>v \<in> set (vulns_of r). str_field v ''risk_level''"
      and rest: "\<forall>r \<in> set (resolved ids rs). \<forall>v \<in> set (vulns_of r). str_field v ''risk_level''"
      by (simp_all add: resolved_def map_filter_simps)
    from Some show ?thesis
      by (simp add: add_data_point_wf[OF wf] Cons.IH[OF rest] resolved_def map_filter_simps)
  qed
qed

section \<open>Properties of the fix generator\<close>

lemma str_lower_empty: "str_lower [] = []"
  by (simp add: str_lower_def)

lemma py_lower_type:
  "str_field v ''type'' \<Longrightarrow> py_lower (dict_get v ''type'' (PStr [])) = Inr (fix_type v)"
  by (auto simp: str_field_def dict_get_def fix_type_def str_lower_empty
           split: option.splits pyval.splits)




lemma apply_template_None_iff:
  "apply_template t cs = None \<longleftrightarrow>
     (\<exists>e. apply_template_body t cs = Inl e) \<or> apply_template_body t cs = Inr None"
  by (cases "apply_template_body t cs") (simp_all add: apply_template_def)



lemma template_loop_None:
  "\<forall>(k, t) \<in> set ts. str_contains vt k \<longrightarrow> apply_template t cs = None \<Longrightarrow>
   template_loop ts vt cs = None"
  by (induction ts vt cs rule: template_loop.induct) (auto simp: Let_def truthy_def)


lemma snippet_str_field:
  "str_field v ''code_snippet'' \<Longrightarrow> dict_get v ''code_snippet'' (PStr []) = PStr (snippet_of v)"
  by (auto simp: str_field_def dict_get_def snippet_of_def split: option.splits pyval.splits)

lemma type_based_fix_total:
  assumes "str_field v ''type''" "str_field v ''code_snippet''"
  shows "\<exists>f. generate_type_based_fix v = Inr f \<and>
             f \<in> {sql_fix, command_fix, xss_fix, path_fix, default_fix (snippet_of v)}"
  unfolding generate_type_based_fix_def py_lower_type[OF assms(1)]
    snippet_str_field[OF assms(2)] Let_def
  by simp


lemma type_based_fix_spec:
  assumes "str_field v ''type''"
      and "str_field v ''code_snippet'' \<or> category_of (fix_type v) \<noteq> DefaultCategory"
  shows "generate_type_based_fix v = Inr (spec_fallback (fix_type v) (snippet_of v))"
proof (cases "category_of (fix_type v) = DefaultCategory")
  case True
  with assms(2) have s: "dict_get v ''code_snippet'' (PStr []) = PStr (snippet_of v)"
    by (simp add: snippet_str_field)
  from True show ?thesis
    unfolding generate_type_based_fix_def py_lower_type[OF assms(1)] s Let_def
    by (simp add: spec_fallback_def category_of_def split: if_splits)
next
  case False
  then show ?thesis
    unfolding generate_type_based_fix_def py_lower_type[OF assms(1)] Let_def
    by (auto simp: spec_fallback_def category_of_def split: if_splits)
qed

lemma not_str_field:
  "\<not> str_field v k \<Longrightarrow> \<exists>x. v k = Some x \<and> (\<forall>s. x \<noteq> PStr s) \<and> dict_get v k dflt = x"
  by (auto simp: str_field_def dict_get_def split: option.splits pyval.splits)


lemma type_based_fix_raises:
  assumes "str_field v ''type''" "\<not> str_field v ''code_snippet''"
      and "category_of (fix_type v) = DefaultCategory"
  shows "generate_type_based_fix v = Inl TypeError"
proof -
  from not_str_field[OF assms(2)] obtain x where
    x: "dict_get v ''code_snippet'' (PStr []) = x" "\<forall>s. x \<noteq> PStr s" by blast
  from assms(3) show ?thesis
    unfolding generate_type_based_fix_def py_lower_type[OF assms(1)] x(1) Let_def
    using x(2) by (cases x) (auto simp: category_of_def split: if_splits)
qed





lemma generate_fix_fallback:
  assumes "str_field v ''type''"
      and "template_loop fix_templates (fix_type v) (dict_get v ''code_snippet'' (PStr [])) = None"
  shows "generate_fix v =
           (case generate_type_based_fix v of Inl e \<Rightarrow> Inl e | Inr f \<Rightarrow> Inr (Some f))"
  by (simp add: generate_fix_def py_lower_type[OF assms(1)] assms(2))

lemma hardcoded_branch_intended:
  "py_format (''{} = os.environ.get('{}', '' @ [apos, apos] @ '')'') [name, str_upper name]
     = Inr (spec_env_lookup name)"
  by (simp add: spec_env_lookup_def)

section \<open>Claims about the risk score\<close>

text \<open>
  C1. For every collection of findings (the risk level of each a string, or absent),
  \<^verbatim>\<open>calculate_risk_score\<close> returns the score of the specification: each finding weighs
  what the table critical=10, high=5, medium=3, low=1, info=0.5, unknown=1 gives its
  risk level, the weights add up to the total weight, and the result is 0 for the empty
  collection or a total of 0, and otherwise min(100, 100 * ln(1 + total/50) / ln 2) rounded
  to one decimal.
\<close>

theorem riskScore_formula:
  assumes "\<forall>v \<in> set vs. str_field v ''risk_level''"
  shows "calculate_risk_score vs = Inr (spec_riskScore (map risk_level_of vs))"
  using weight_loop_sum[OF assms, of 0]
  by (simp add: calculate_risk_score_def spec_riskScore_def normalized_score_def)

theorem riskScore_formula_witness:
  "calculate_risk_score
     [[''risk_level'' \<mapsto> PStr ''High''], Map.empty, [''risk_level'' \<mapsto> PStr ''info'']]
     = Inr (py_round1 (min 100 (100 * ln (1 + (13 / 2) / 50) / ln 2)))"
  using riskScore_formula
    [of "[[''risk_level'' \<mapsto> PStr ''High''], Map.empty, [''risk_level'' \<mapsto> PStr ''info'']]"]
  by (simp add: str_field_def risk_level_of_def spec_riskScore_def spec_totalWeight_def
        spec_weight_def str_eval)

text \<open>
  C2, as the specification states it, fails: for the single finding of risk level
  critical the score is not 25.8.
\<close>

theorem riskScore_one_critical_not_25_8:
  "calculate_risk_score [[''risk_level'' \<mapsto> PStr ''critical'']] \<noteq> Inr (258 / 10)"
  by (simp add: calculate_risk_score_def vuln_weight_def dict_get_def str_eval risk_weights_def
        py_round1_critical)

text \<open>
  C2, amended. For the single finding of risk level critical the total weight is 10 and
  \<^verbatim>\<open>calculate_risk_score\<close> returns 100 * ln(1 + 10/50) / ln 2 rounded to one decimal,
  which is 26.3.
\<close>

theorem riskScore_one_critical:
  "weight_loop 0 [[''risk_level'' \<mapsto> PStr ''critical'']] = Inr 10 \<and>
   calculate_risk_score [[''risk_level'' \<mapsto> PStr ''critical'']]
     = Inr (py_round1 (100 * ln (1 + 10 / 50) / ln 2)) \<and>
   py_round1 (100 * ln (1 + 10 / 50) / ln 2) = 263 / 10"
proof -
  have w: "weight_loop 0 [[''risk_level'' \<mapsto> PStr ''critical'']] = Inr 10"
    by (simp add: vuln_weight_def dict_get_def str_eval risk_weights_def)
  have "100 * ln (6 / 5 :: real) / ln 2 \<le> 100"
    using log2_6_5_upper by (simp add: divide_le_eq)
  then have n: "normalized_score 10 = 100 * ln (1 + 10 / 50) / ln 2"
    by (simp add: normalized_score_def)
  show ?thesis using w n py_round1_critical by (simp add: calculate_risk_score_def)
qed

text \<open>
  C4. For any two collections of findings, the one with the larger total weight never
  has the smaller score, and every score lies between 0 and 100.
\<close>

theorem riskScore_monotone_bounded:
  assumes a: "\<forall>v \<in> set a. str_field v ''risk_level''"
      and b: "\<forall>v \<in> set b. str_field v ''risk_level''"
  shows "\<exists>wa wb sa sb.
           weight_loop 0 a = Inr wa \<and> weight_loop 0 b = Inr wb \<and>
           calculate_risk_score a = Inr sa \<and> calculate_risk_score b = Inr sb \<and>
           (wa \<le> wb \<longrightarrow> sa \<le> sb) \<and> 0 \<le> sa \<and> sa \<le> 100"
proof -
  let ?wa = "spec_totalWeight (map risk_level_of a)"
  let ?wb = "spec_totalWeight (map risk_level_of b)"
  let ?sa = "py_round1 (normalized_score ?wa)"
  let ?sb = "py_round1 (normalized_score ?wb)"
  have wa: "weight_loop 0 a = Inr ?wa" using weight_loop_sum[OF a, of 0] by simp
  have wb: "weight_loop 0 b = Inr ?wb" using weight_loop_sum[OF b, of 0] by simp
  have sa: "calculate_risk_score a = Inr ?sa" by (rule calculate_risk_score_round[OF a])
  have sb: "calculate_risk_score b = Inr ?sb" by (rule calculate_risk_score_round[OF b])
  have mono: "?wa \<le> ?wb \<longrightarrow> ?sa \<le> ?sb"
    by (simp add: py_round1_mono normalized_score_mono spec_totalWeight_nonneg)
  have lo: "0 \<le> ?sa"
    by (simp add: py_round1_nonneg normalized_score_nonneg spec_totalWeight_nonneg)
  have hi: "?sa \<le> 100"
    by (simp add: py_round1_le_100 normalized_score_le)
  from wa wb sa sb mono lo hi show ?thesis by blast
qed

theorem riskScore_monotone_bounded_witness:
  "\<exists>sa sb. calculate_risk_score [[''risk_level'' \<mapsto> PStr ''low'']] = Inr sa \<and>
           calculate_risk_score [[''risk_level'' \<mapsto> PStr ''CRITICAL''], Map.empty] = Inr sb \<and>
           sa \<le> sb \<and> 0 \<le> sa \<and> sa \<le> 100"
proof -
  let ?a = "[[''risk_level'' \<mapsto> PStr ''low'']]"
  let ?b = "[[''risk_level'' \<mapsto> PStr ''CRITICAL''], Map.empty]"
  have a: "\<forall>v \<in> set ?a. str_field v ''risk_level''" by (simp add: str_field_def)
  have b: "\<forall>v \<in> set ?b. str_field v ''risk_level''" by (simp add: str_field_def)
  have wa: "weight_loop 0 ?a = Inr 1"
    by (simp add: vuln_weight_def dict_get_def str_eval risk_weights_def)
  have wb: "weight_loop 0 ?b = Inr 11"
    by (simp add: vuln_weight_def dict_get_def str_eval risk_weights_def)
  from riskScore_monotone_bounded[OF a b] wa wb show ?thesis by auto
qed

text \<open>
  C10. The risk level of a finding is lower-cased before the weight is looked up, so
  the weight does not depend on its case; and a risk level that, lower-cased, is none of
  the six keys of the table weighs 1 and adds 1 to the total weight.
\<close>

theorem risk_level_lowercased_default_weight:
  assumes "vuln ''risk_level'' = Some (PStr s)"
  shows "vuln_weight vuln = Inr (spec_weight (str_lower s)) \<and>
         vuln_weight vuln = vuln_weight [''risk_level'' \<mapsto> PStr (str_lower s)] \<and>
         (str_lower s \<notin> set (map fst risk_weights) \<longrightarrow>
            vuln_weight vuln = Inr 1 \<and>
            weight_loop total_weight (vuln # rest) = weight_loop (total_weight + 1) rest)"
  using assms
  by (auto simp: vuln_weight_def dict_get_def map_of_risk_weights str_lower_idem
        spec_weight_def risk_weights_def)

theorem risk_level_lowercased_default_weight_witness:
  "vuln_weight [''risk_level'' \<mapsto> PStr ''CRITICAL''] = Inr 10 \<and>
   vuln_weight [''risk_level'' \<mapsto> PStr ''Severe''] = Inr 1 \<and>
   weight_loop 4 [[''risk_level'' \<mapsto> PStr ''Severe'']] = Inr 5"
  using risk_level_lowercased_default_weight
          [of "[''risk_level'' \<mapsto> PStr ''CRITICAL'']" "''CRITICAL''" 0 "[]"]
        risk_level_lowercased_default_weight
          [of "[''risk_level'' \<mapsto> PStr ''Severe'']" "''Severe''" 4 "[]"]
  by (simp add: str_eval spec_weight_def risk_weights_def)

section \<open>Claims about the statistics and the trend\<close>

text \<open>
  C5. For every collection of findings, in the statistics \<^verbatim>\<open>generate\<close> returns the
  counts of the risk distribution add up to the total number of findings, and so do the
  counts of the type distribution; both distributions are mappings, no key occurs
  twice. It returns statistics for every collection in which the risk level and the
  type of each finding are strings, or absent, and no confidence is an integer too large
  for a float.
\<close>

theorem generate_distributions_sum:
  "(\<forall>st. generate now vs = Inr st \<longrightarrow>
          total_vulnerabilities st = length vs \<and>
          sum_list (map snd (risk_distribution st)) = total_vulnerabilities st \<and>
          sum_list (map snd (type_distribution st)) = total_vulnerabilities st \<and>
          distinct (map fst (risk_distribution st)) \<and>
          distinct (map fst (type_distribution st))) \<and>
   ((\<forall>v \<in> set vs. str_field v ''risk_level'' \<and> str_field v ''type'' \<and> confidence_ok v) \<longrightarrow>
      (\<exists>st. generate now vs = Inr st))"
proof (intro conjI allI impI)
  fix st
  assume "generate now vs = Inr st"
  from generate_result[OF this] obtain rl tl where
    "total_vulnerabilities st = length vs" "length rl = length vs" "length tl = length vs"
    "risk_distribution st = counter (=) rl" "type_distribution st = counter (=) tl"
    by blast
  then show "total_vulnerabilities st = length vs"
    "sum_list (map snd (risk_distribution st)) = total_vulnerabilities st"
    "sum_list (map snd (type_distribution st)) = total_vulnerabilities st"
    "distinct (map fst (risk_distribution st))"
    "distinct (map fst (type_distribution st))"
    by (simp_all add: counter_sum counter_distinct)
next
  assume wf: "\<forall>v \<in> set vs. str_field v ''risk_level'' \<and> str_field v ''type'' \<and> confidence_ok v"
  then have r: "lowered_fields ''risk_level'' vs = Inr (map (tag_of ''risk_level'') vs)"
    by (intro lowered_fields_wf) simp
  from wf have t: "lowered_fields ''type'' vs = Inr (map (tag_of ''type'') vs)"
    by (intro lowered_fields_wf) simp
  from wf obtain cs where c: "confidences_of vs = Inr cs"
    using confidences_of_ok[of vs] by auto
  show "\<exists>st. generate now vs = Inr st"
    by (simp add: generate_def r t c Let_def)
qed

theorem generate_distributions_sum_witness:
  "\<exists>st. generate ''2024-05-01T10:00:00''
           [[''risk_level'' \<mapsto> PStr ''High'', ''type'' \<mapsto> PStr ''sql_injection'',
             ''confidence'' \<mapsto> PInt 1],
            [''type'' \<mapsto> PStr ''XSS'', ''confidence'' \<mapsto> PStr ''low''],
            [''risk_level'' \<mapsto> PStr ''high'', ''type'' \<mapsto> PStr ''xss'',
             ''confidence'' \<mapsto> PFloat (1 / 2)]] = Inr st \<and>
        total_vulnerabilities st = 3 \<and>
        risk_distribution st = [(''high'', 2), (''unknown'', 1)] \<and>
        type_distribution st = [(''sql_injection'', 1), (''xss'', 2)] \<and>
        average_confidence st = 1 / 2 \<and>
        sum_list (map snd (risk_distribution st)) = 3 \<and>
        sum_list (map snd (type_distribution st)) = 3"
proof -
  let ?vs = "[[''risk_level'' \<mapsto> PStr ''High'', ''type'' \<mapsto> PStr ''sql_injection'',
               ''confidence'' \<mapsto> PInt 1],
              [''type'' \<mapsto> PStr ''XSS'', ''confidence'' \<mapsto> PStr ''low''],
              [''risk_level'' \<mapsto> PStr ''high'', ''type'' \<mapsto> PStr ''xss'',
               ''confidence'' \<mapsto> PFloat (1 / 2)]]"
  have wf: "\<forall>v \<in> set ?vs. str_field v ''risk_level'' \<and> str_field v ''type'' \<and> confidence_ok v"
    by (simp add: str_field_def confidence_ok_def dict_get_def)
  with generate_distributions_sum[of "''2024-05-01T10:00:00''" ?vs]
  obtain st where st: "generate ''2024-05-01T10:00:00'' ?vs = Inr st"
    and sums: "sum_list (map snd (risk_distribution st)) = total_vulnerabilities st"
              "sum_list (map snd (type_distribution st)) = total_vulnerabilities st"
              "total_vulnerabilities st = length ?vs"
    by blast
  have c: "confidences_of ?vs = Inr [1, 0, 1 / 2]"
    by (simp add: confidence_of_def float_of_int_def dict_get_def)
  from st have
    "total_vulnerabilities st = 3"
    "risk_distribution st = [(''high'', 2), (''unknown'', 1)]"
    "type_distribution st = [(''sql_injection'', 1), (''xss'', 2)]"
    "average_confidence st = 1 / 2"
    by (auto simp: generate_def c dict_get_def str_eval counter_def Let_def mean_or_zero_def
             simp del: confidences_of.simps)
  with st sums show ?thesis by auto
qed

text \<open>
  C6. For the empty collection \<^verbatim>\<open>generate\<close> returns the all-zero statistics (total 0,
  empty distributions, average confidence 0), not an absence, and
  \<^verbatim>\<open>calculate_risk_score\<close> returns 0.
\<close>

theorem empty_collection_zero_stats:
  "generate now [] =
     Inr \<lparr>total_vulnerabilities = 0, risk_distribution = [], type_distribution = [],
          top_vulnerability_types = [], average_confidence = 0, top_vulnerable_files = [],
          generated_at = now\<rparr> \<and>
   calculate_risk_score [] = Inr 0"
  by (simp add: generate_def empty_stats_def calculate_risk_score_def)


text \<open>
  C8. For every list of scan ids and every mapping of scan results (the risk levels of
  the findings of the results the ids resolve to being strings, or absent),
  \<^verbatim>\<open>generate_trend_data\<close> returns six sequences of one length, with one entry for each
  id that is a key of the mapping, in the order of the ids; an id that is no key is
  skipped and raises nothing.
\<close>

theorem trend_parallel_sequences:
  assumes "\<forall>r \<in> set (resolved ids rs). \<forall>v \<in> set (vulns_of r). str_field v ''risk_level''"
  shows "\<exists>t. generate_trend_data ids rs = Inr t \<and>
           dates t = map timestamp_of (resolved ids rs) \<and>
           critical t = map (level_count ''critical'') (resolved ids rs) \<and>
           high t = map (level_count ''high'') (resolved ids rs) \<and>
           medium t = map (level_count ''medium'') (resolved ids rs) \<and>
           low t = map (level_count ''low'') (resolved ids rs) \<and>
           risk_scores t = map risk_score_of (resolved ids rs) \<and>
           resolved ids rs = map (the \<circ> rs) (filter (\<lambda>i. i \<in> dom rs) ids) \<and>
           length (dates t) = length (filter (\<lambda>i. i \<in> dom rs) ids) \<and>
           length (critical t) = length (dates t) \<and> length (high t) = length (dates t) \<and>
           length (medium t) = length (dates t) \<and> length (low t) = length (dates t) \<and>
           length (risk_scores t) = length (dates t)"
proof -
  have r: "resolved ids rs = map (the \<circ> rs) (filter (\<lambda>i. i \<in> dom rs) ids)"
    by (simp add: resolved_def map_filter_def dom_def)
  have l: "length (resolved ids rs) = length (filter (\<lambda>i. i \<in> dom rs) ids)"
    by (simp add: r)
  show ?thesis
    unfolding generate_trend_data_def trend_loop_wf[OF assms]
    using r l by simp
qed

theorem trend_parallel_sequences_witness:
  "\<exists>t. generate_trend_data [''s1'', ''gone'', ''s2'']
          [''s1'' \<mapsto> \<lparr>timestamp = Some (PStr ''2024-05-01''),
                        vulnerabilities = Some [[''risk_level'' \<mapsto> PStr ''Critical''],
                                                [''risk_level'' \<mapsto> PStr ''low'']],
                        risk_score = Some (PFloat (263 / 10))\<rparr>,
           ''s2'' \<mapsto> \<lparr>timestamp = Some (PStr ''2024-05-02''),
                        vulnerabilities = None,
                        risk_score = None\<rparr>] = Inr t \<and>
       dates t = [PStr ''2024-05-01'', PStr ''2024-05-02''] \<and>
       critical t = [1, 0] \<and> high t = [0, 0] \<and> medium t = [0, 0] \<and> low t = [1, 0] \<and>
       risk_scores t = [PFloat (263 / 10), PInt 0]"
  using trend_parallel_sequences
    [of "[''s1'', ''gone'', ''s2'']"
        "[''s1'' \<mapsto> \<lparr>timestamp = Some (PStr ''2024-05-01''),
                        vulnerabilities = Some [[''risk_level'' \<mapsto> PStr ''Critical''],
                                                [''risk_level'' \<mapsto> PStr ''low'']],
                        risk_score = Some (PFloat (263 / 10))\<rparr>,
           ''s2'' \<mapsto> \<lparr>timestamp = Some (PStr ''2024-05-02''),
                        vulnerabilities = None,
                        risk_score = None\<rparr>]"]
  by (simp add: resolved_def map_filter_simps vulns_of_def level_count_def tag_of_def
        timestamp_of_def risk_score_of_def str_field_def str_eval) blast

section \<open>Claims about the fix generator\<close>

text \<open>
  C3. The claim: for a finding whose type contains \<^verbatim>\<open>hardcoded_secrets\<close> and whose
  snippet matches the template's pattern, \<^verbatim>\<open>generate_fix\<close> rewrites the assignment into
  a lookup of the environment variable named by the upper-cased variable. The code
  does not: \<^verbatim>\<open>_apply_template\<close> tests \<^verbatim>\<open>'hardcoded_secrets' in template\<close> on the
  template's own dictionary, whose keys are \<^verbatim>\<open>pattern\<close>, \<^verbatim>\<open>replacement\<close> and
  \<^verbatim>\<open>explanation\<close>, so the branch that formats the replacement is never taken and the
  replacement is returned with its placeholders. For the snippet
  \<^verbatim>\<open>password = "hunter2"\<close> the fixed code is the template itself and not
  \<^verbatim>\<open>password = os.environ.get('PASSWORD', '')\<close>.
\<close>

theorem hardcoded_secret_fix_unformatted:
  "generate_fix [''type'' \<mapsto> PStr ''hardcoded_secrets'',
                 ''code_snippet'' \<mapsto> PStr (''password = '' @ [dquote] @ ''hunter2'' @ [dquote])]
     = Inr (Some (make_fix (''{} = os.environ.get('{}', '' @ [apos, apos] @ '')'')
                   ''Store secrets in environment variables or a secure vault service.''
                   ''medium'')) \<and>
   ''{} = os.environ.get('{}', '' @ [apos, apos] @ '')'' \<noteq> spec_env_lookup ''password'' \<and>
   spec_env_lookup ''password''
     = ''password = os.environ.get('PASSWORD', '' @ [apos, apos] @ '')''"
  by code_simp

text \<open>
  C7, as the specification states it, fails. For the finding of type
  \<^verbatim>\<open>hardcoded_secrets\<close> whose snippet is the number 42, applying the registered
  template raises \<^verbatim>\<open>TypeError\<close>, which is caught; the type is in none of the four
  categories, the default suggestion concatenates a string and the snippet, and that
  \<^verbatim>\<open>TypeError\<close> reaches the caller.
\<close>

theorem fix_fallback_nonstring_snippet_raises:
  "str_contains ''hardcoded_secrets'' ''hardcoded_secrets'' \<and>
   map_option (\<lambda>t. apply_template_body t (PInt 42)) (map_of fix_templates ''hardcoded_secrets'')
     = Some (Inl TypeError) \<and>
   generate_fix [''type'' \<mapsto> PStr ''hardcoded_secrets'', ''code_snippet'' \<mapsto> PInt 42]
     = Inl TypeError"
  by code_simp

text \<open>
  C7, amended. For every finding whose type is a string or absent, if no template whose
  key occurs in the type gives a fix, because there is none, or its pattern does not
  match the snippet, or applying it raised an error that was caught, then: when the
  snippet is a string or absent, or the type is in one of the four categories,
  \<^verbatim>\<open>generate_fix\<close> returns the generic suggestion keyed by the type (the SQL, command,
  cross-site-scripting or path/file suggestion, or the default that echoes the snippet)
  and no exception reaches the caller; when the snippet is not a string and the type is
  in none of the categories, the default suggestion raises \<^verbatim>\<open>TypeError\<close>.
\<close>

theorem fix_fallback:
  assumes type: "str_field v ''type''"
      and none: "\<forall>(k, t) \<in> set fix_templates.
                   str_contains (fix_type v) k \<longrightarrow>
                   (\<exists>e. apply_template_body t (dict_get v ''code_snippet'' (PStr [])) = Inl e) \<or>
                   apply_template_body t (dict_get v ''code_snippet'' (PStr [])) = Inr None"
  shows "(str_field v ''code_snippet'' \<or> category_of (fix_type v) \<noteq> DefaultCategory \<longrightarrow>
            generate_fix v = Inr (Some (spec_fallback (fix_type v) (snippet_of v))) \<and>
            generate_type_based_fix v = Inr (spec_fallback (fix_type v) (snippet_of v)) \<and>
            spec_fallback (fix_type v) (snippet_of v)
              \<in> {sql_fix, command_fix, xss_fix, path_fix, default_fix (snippet_of v)}) \<and>
         (\<not> str_field v ''code_snippet'' \<and> category_of (fix_type v) = DefaultCategory \<longrightarrow>
            generate_fix v = Inl TypeError)"
proof -
  from none have "\<forall>(k, t) \<in> set fix_templates.
                    str_contains (fix_type v) k \<longrightarrow>
                    apply_template t (dict_get v ''code_snippet'' (PStr [])) = None"
    by (simp add: apply_template_None_iff)
  then have l:
    "template_loop fix_templates (fix_type v) (dict_get v ''code_snippet'' (PStr [])) = None"
    by (rule template_loop_None)
  note g = generate_fix_fallback[OF type l]
  have m: "spec_fallback (fix_type v) (snippet_of v)
             \<in> {sql_fix, command_fix, xss_fix, path_fix, default_fix (snippet_of v)}"
    by (simp add: spec_fallback_def split: category.splits)
  show ?thesis
  proof (intro conjI impI)
    assume snip: "str_field v ''code_snippet'' \<or> category_of (fix_type v) \<noteq> DefaultCategory"
    show f: "generate_type_based_fix v = Inr (spec_fallback (fix_type v) (snippet_of v))"
      by (rule type_based_fix_spec[OF type snip])
    show "generate_fix v = Inr (Some (spec_fallback (fix_type v) (snippet_of v)))"
      by (simp add: g f)
    show "spec_fallback (fix_type v) (snippet_of v)
            \<in> {sql_fix, command_fix, xss_fix, path_fix, default_fix (snippet_of v)}"
      by (rule m)
  next
    assume "\<not> str_field v ''code_snippet'' \<and> category_of (fix_type v) = DefaultCategory"
    then have "generate_type_based_fix v = Inl TypeError"
      by (simp add: type_based_fix_raises[OF type])
    then show "generate_fix v = Inl TypeError" by (simp add: g)
  qed
qed

theorem fix_fallback_witness:
  "generate_fix finding_xss = Inr (Some xss_fix) \<and>
   generate_fix finding_secret_nomatch = Inr (Some (default_fix ''password = load()'')) \<and>
   generate_fix finding_sql_nosnippet = Inr (Some sql_fix) \<and>
   generate_fix finding_secret_nosnippet = Inl TypeError"
proof -
  have t1: "fix_type finding_xss = ''xss_reflected''"
    by (simp add: fix_type_def finding_xss_def str_eval)
  have t2: "fix_type finding_secret_nomatch = ''hardcoded_secrets''"
    by (simp add: fix_type_def finding_secret_nomatch_def str_eval)
  have t3: "fix_type finding_sql_nosnippet = ''sql_injection''"
    by (simp add: fix_type_def finding_sql_nosnippet_def str_eval)
  have t4: "fix_type finding_secret_nosnippet = ''hardcoded_secrets''"
    by (simp add: fix_type_def finding_secret_nosnippet_def str_eval)
  have c1: "category_of ''xss_reflected'' = XssCategory" by code_simp
  have c2: "category_of ''hardcoded_secrets'' = DefaultCategory" by code_simp
  have c3: "category_of ''sql_injection'' = SqlCategory" by code_simp
  have "\<forall>(k, t) \<in> set fix_templates. \<not> str_contains ''xss_reflected'' k"
    by code_simp
  then have n1:
    "\<forall>(k, t) \<in> set fix_templates.
       str_contains (fix_type finding_xss) k \<longrightarrow>
       (\<exists>e. apply_template_body t (dict_get finding_xss ''code_snippet'' (PStr [])) = Inl e) \<or>
       apply_template_body t (dict_get finding_xss ''code_snippet'' (PStr [])) = Inr None"
    unfolding t1 by blast
  have d2: "dict_get finding_secret_nomatch ''code_snippet'' (PStr [])
              = PStr ''password = load()''"
    by (simp add: finding_secret_nomatch_def dict_get_def)
  have "\<forall>(k, t) \<in> set fix_templates.
          str_contains ''hardcoded_secrets'' k \<longrightarrow>
          apply_template_body t (PStr ''password = load()'') = Inr None"
    by code_simp
  then have n2:
    "\<forall>(k, t) \<in> set fix_templates.
       str_contains (fix_type finding_secret_nomatch) k \<longrightarrow>
       (\<exists>e. apply_template_body t
               (dict_get finding_secret_nomatch ''code_snippet'' (PStr [])) = Inl e) \<or>
       apply_template_body t
         (dict_get finding_secret_nomatch ''code_snippet'' (PStr [])) = Inr None"
    unfolding t2 d2 by blast
  have n3:
    "\<forall>(k, t) \<in> set fix_templates.
       str_contains (fix_type finding_sql_nosnippet) k \<longrightarrow>
       (\<exists>e. apply_template_body t
               (dict_get finding_sql_nosnippet ''code_snippet'' (PStr [])) = Inl e) \<or>
       apply_template_body t
         (dict_get finding_sql_nosnippet ''code_snippet'' (PStr [])) = Inr None"
    by (simp add: finding_sql_nosnippet_def dict_get_def apply_template_body_def)
  have n4:
    "\<forall>(k, t) \<in> set fix_templates.
       str_contains (fix_type finding_secret_nosnippet) k \<longrightarrow>
       (\<exists>e. apply_template_body t
               (dict_get finding_secret_nosnippet ''code_snippet'' (PStr [])) = Inl e) \<or>
       apply_template_body t
         (dict_get finding_secret_nosnippet ''code_snippet'' (PStr [])) = Inr None"
    by (simp add: finding_secret_nosnippet_def dict_get_def apply_template_body_def)
  have w1: "str_field finding_xss ''type''" "str_field finding_xss ''code_snippet''"
    by (simp_all add: str_field_def finding_xss_def)
  have w2: "str_field finding_secret_nomatch ''type''"
           "str_field finding_secret_nomatch ''code_snippet''"
    by (simp_all add: str_field_def finding_secret_nomatch_def)
  have w3: "str_field finding_sql_nosnippet ''type''"
           "\<not> str_field finding_sql_nosnippet ''code_snippet''"
    by (simp_all add: str_field_def finding_sql_nosnippet_def)
  have w4: "str_field finding_secret_nosnippet ''type''"
           "\<not> str_field finding_secret_nosnippet ''code_snippet''"
    by (simp_all add: str_field_def finding_secret_nosnippet_def)
  have s2: "snippet_of finding_secret_nomatch = ''password = load()''"
    by (simp add: snippet_of_def finding_secret_nomatch_def)
  from fix_fallback[OF w1(1) n1] fix_fallback[OF w2(1) n2]
       fix_fallback[OF w3(1) n3] fix_fallback[OF w4(1) n4]
  show ?thesis
    by (simp add: w1(2) w2(2) w3(2) w4(2) t1 t2 t3 t4 c1 c2 c3 s2 spec_fallback_def)
qed




end
